theory Spec2Isabelle
  imports Main "HOL-Library.AList"
begin

section \<open>The QEMU virtual machine factory\<close>

text \<open>
  A shallow embedding of \<^verbatim>\<open>qemu_virtual_machine_factory.cpp\<close>: handle creation, the
  transactional clone \<^verbatim>\<open>create_vm_and_instance_disk_data\<close> with its scope guard, image
  preparation and the version probe.

  The file calls collaborators that live elsewhere (file operations, the cloud-init
  archive, the YAML utilities, the VM class, the image utilities, the process layer).
  They are parameters of the model: a record of functions over an abstract world
  \<open>'w\<close>. A call that can throw returns \<open>(error + 'a) \<times> 'w\<close>: the outcome and the world
  it leaves behind, which a failed call may have changed (a recursive copy that fails
  half-way leaves a partial directory).
\<close>

subsection \<open>Data\<close>

text \<open>
  A path is the list of the operands it was joined from, in order; how the joined text
  spells its separators is left out. \<^verbatim>\<open>operator/\<close> of \<^verbatim>\<open>std::filesystem::path\<close> appends
  its operand, unless the operand is absolute (it starts with a slash): an absolute
  operand replaces the whole path.
\<close>

type_synonym path = "string list"

definition is_absolute :: "string \<Rightarrow> bool" where
  "is_absolute name = (case name of [] \<Rightarrow> False | c # _ \<Rightarrow> c = CHR ''/'')"

definition path_append :: "path \<Rightarrow> string \<Rightarrow> path" where
  "path_append p name = (if is_absolute name then [name] else p @ [name])"

datatype error = filesystem_error string | runtime_error string | yaml_error string

record network_interface =
  nic_id :: string
  mac_address :: string

text \<open>\<^verbatim>\<open>VMSpecs\<close>: the fields the factory reads.\<close>

record vm_specs =
  num_cores :: int
  mem_size :: nat
  disk_space :: nat
  default_mac_address :: string
  extra_interfaces :: "network_interface list"
  ssh_username :: string

text \<open>\<^verbatim>\<open>VMImage\<close>: the image path, and every other field of the class as \<open>metadata\<close>.\<close>

record 'm vm_image =
  image_path :: string
  metadata :: 'm

text \<open>
  \<^verbatim>\<open>VirtualMachineDescription\<close>, with the thirteen fields the clone initialises in
  order; the last four are the default-constructed (\<^verbatim>\<open>{}\<close>) YAML nodes.
\<close>

record ('m, 'y) vm_description =
  desc_num_cores :: int
  desc_mem_size :: nat
  desc_disk_space :: nat
  vm_name :: string
  desc_default_mac_address :: string
  desc_extra_interfaces :: "network_interface list"
  desc_ssh_username :: string
  image :: "'m vm_image"
  cloud_init_iso :: path
  meta_data_config :: "'y option"
  user_data_config :: "'y option"
  vendor_data_config :: "'y option"
  network_data_config :: "'y option"

subsection \<open>The cloud-init archive\<close>

text \<open>
  \<^verbatim>\<open>CloudInitIso\<close> is an ordered collection of named entries, held in memory between
  \<^verbatim>\<open>read_from\<close> and \<^verbatim>\<open>write_to\<close>. The entry content is \<open>'c\<close> (text in the program).
\<close>

type_synonym 'c cloud_init_iso = "(string \<times> 'c) list"

text \<open>
  Modelled from the spec: \<^verbatim>\<open>CloudInitIso::contains\<close> (the class is not part of the
  file), whether the archive has an entry of that name.
\<close>

definition iso_contains :: "'c cloud_init_iso \<Rightarrow> string \<Rightarrow> bool" where
  "iso_contains archive name = (map_of archive name \<noteq> None)"

text \<open>
  Modelled from the spec: \<^verbatim>\<open>CloudInitIso::at\<close>, the content of the entry of that name; a
  missing entry is an error.
\<close>

definition iso_at :: "'c cloud_init_iso \<Rightarrow> string \<Rightarrow> error + 'c" where
  "iso_at archive name =
     (case map_of archive name of
        None \<Rightarrow> Inl (runtime_error name)
      | Some content \<Rightarrow> Inr content)"

text \<open>
  Assignment through the reference that \<^verbatim>\<open>at\<close> returned: the content of the entry is
  replaced in place.
\<close>

definition iso_assign :: "'c cloud_init_iso \<Rightarrow> string \<Rightarrow> 'c \<Rightarrow> 'c cloud_init_iso" where
  "iso_assign archive name content = AList.update name content archive"

subsection \<open>Collaborators, instrumented state, sequencing\<close>

text \<open>
  The functions the factory calls. \<open>fs_exists\<close> and \<open>fs_remove\<close> are the overloads that take
  a \<^verbatim>\<open>std::error_code\<close>: they return their boolean result and the error code they set
  (\<open>None\<close> when they clear it), and do not throw.
\<close>

record ('w, 'c, 'y, 'vm, 'm) collaborators =
  get_directory_name :: string
  get_instance_directory :: "string \<Rightarrow> path"
  fs_copy :: "path \<Rightarrow> path \<Rightarrow> 'w \<Rightarrow> (error + unit) \<times> 'w"
  fs_exists :: "path \<Rightarrow> 'w \<Rightarrow> bool \<times> error option"
  fs_remove :: "path \<Rightarrow> 'w \<Rightarrow> (bool \<times> error option) \<times> 'w"
  iso_read_from :: "path \<Rightarrow> 'w \<Rightarrow> (error + 'c cloud_init_iso) \<times> 'w"
  iso_write_to :: "'c cloud_init_iso \<Rightarrow> path \<Rightarrow> 'w \<Rightarrow> (error + unit) \<times> 'w"
  make_cloud_init_meta_config :: "string \<Rightarrow> 'c \<Rightarrow> error + 'y"
  make_cloud_init_network_config :: "string \<Rightarrow> network_interface list \<Rightarrow> 'c \<Rightarrow> error + 'y"
  emit_cloud_config :: "'y \<Rightarrow> 'c"
  construct_vm :: "('m, 'y) vm_description \<Rightarrow> path \<Rightarrow> 'w \<Rightarrow> (error + 'vm) \<times> 'w"
  load_snapshots_and_update_unique_identifiers ::
    "'vm \<Rightarrow> vm_specs \<Rightarrow> vm_specs \<Rightarrow> string \<Rightarrow> 'w \<Rightarrow> (error + 'vm) \<times> 'w"

text \<open>
  The calls made on the collaborators are recorded, as a test double would: the state
  threads the world, the call log and the scope guard's flag.
\<close>

datatype 'c event =
    Copy path path
  | ReadFrom path
  | WriteTo "'c cloud_init_iso" path
  | Construct string path
  | LoadSnapshots string
  | Exists path
  | Remove path
  | Dismiss

record ('w, 'c) state =
  world :: 'w
  trace :: "'c event list"
  guard_active :: bool

definition bind :: "('s \<Rightarrow> (error + 'a) \<times> 's) \<Rightarrow> ('a \<Rightarrow> 's \<Rightarrow> (error + 'b) \<times> 's) \<Rightarrow> 's \<Rightarrow> (error + 'b) \<times> 's" where
  \<comment> \<open>Sequencing of statements: an exception skips the rest.\<close>
  "bind m f s = (case m s of (Inl e, s') \<Rightarrow> (Inl e, s') | (Inr a, s') \<Rightarrow> f a s')"

definition lift :: "error + 'a \<Rightarrow> 's \<Rightarrow> (error + 'a) \<times> 's" where
  \<comment> \<open>A computation that does not touch the state.\<close>
  "lift r s = (r, s)"

definition call :: "'c event \<Rightarrow> ('w \<Rightarrow> (error + 'a) \<times> 'w) \<Rightarrow> ('w, 'c) state \<Rightarrow> (error + 'a) \<times> ('w, 'c) state" where
  \<comment> \<open>A collaborator call: logged, then run on the world.\<close>
  "call ev f st =
     (case f (world st) of (r, w') \<Rightarrow> (r, st\<lparr>world := w', trace := trace st @ [ev]\<rparr>))"

definition bind_pure :: "error + 'a \<Rightarrow> ('a \<Rightarrow> error + 'b) \<Rightarrow> error + 'b" where
  "bind_pure r f = (case r of Inl e \<Rightarrow> Inl e | Inr a \<Rightarrow> f a)"

subsection \<open>Handle creation\<close>

definition create_virtual_machine ::
  "('w, 'c, 'y, 'vm, 'm) collaborators \<Rightarrow> ('m, 'y) vm_description \<Rightarrow> ('w, 'c) state \<Rightarrow> (error + 'vm) \<times> ('w, 'c) state" where
  "create_virtual_machine C desc =
     call (Construct (vm_name desc) (get_instance_directory C (vm_name desc)))
          (construct_vm C desc (get_instance_directory C (vm_name desc)))"

subsection \<open>The clone\<close>

text \<open>
  Modelled from the spec: \<^verbatim>\<open>utils::backend_directory_path\<close> (not part of the file), the
  backend's directory \<^verbatim>\<open><data_root>/<backend-directory-name>\<close> under the data root.
\<close>

definition backend_directory_path :: "path \<Rightarrow> string \<Rightarrow> path" where
  "backend_directory_path data_directory subdirectory = data_directory @ [subdirectory]"

definition get_backend_directory_name :: "('w, 'c, 'y, 'vm, 'm) collaborators \<Rightarrow> string" where
  "get_backend_directory_name C = get_directory_name C"

definition instances_data_directory :: "('w, 'c, 'y, 'vm, 'm) collaborators \<Rightarrow> path \<Rightarrow> path" where
  "instances_data_directory C data_directory =
     path_append
       (path_append (backend_directory_path data_directory (get_backend_directory_name C)) ''vault'')
       ''instances''"

definition instance_data_directory :: "('w, 'c, 'y, 'vm, 'm) collaborators \<Rightarrow> path \<Rightarrow> string \<Rightarrow> path" where
  \<comment> \<open>\<^verbatim>\<open>source_instance_data_directory\<close> and \<^verbatim>\<open>dest_instance_data_directory\<close>, by name.\<close>
  "instance_data_directory C data_directory name =
     path_append (instances_data_directory C data_directory) name"

definition cloud_init_config_iso_file_path :: "path \<Rightarrow> path" where
  "cloud_init_config_iso_file_path dest_instance_data_directory =
     path_append dest_instance_data_directory ''cloud-init-config.iso''"

definition rollback :: "('w, 'c, 'y, 'vm, 'm) collaborators \<Rightarrow> path \<Rightarrow> ('w, 'c) state \<Rightarrow> (error + unit) \<times> ('w, 'c) state" where
  \<comment> \<open>The guard's callback: both error codes are dropped, as is the result of the removal.\<close>
  "rollback C instance_directory_path st =
     (case fs_exists C instance_directory_path (world st) of
        (found, err_code) \<Rightarrow>
          (let st1 = st\<lparr>trace := trace st @ [Exists instance_directory_path]\<rparr>
           in if found
              then (case fs_remove C instance_directory_path (world st1) of
                      ((removed, err_code'), w') \<Rightarrow>
                        (Inr (), st1\<lparr>world := w', trace := trace st1 @ [Remove instance_directory_path]\<rparr>))
              else (Inr (), st1)))"

definition dismiss :: "('w, 'c) state \<Rightarrow> (error + unit) \<times> ('w, 'c) state" where
  "dismiss st = (Inr (), st\<lparr>trace := trace st @ [Dismiss], guard_active := False\<rparr>)"

definition rewrite_meta_data ::
  "('w, 'c, 'y, 'vm, 'm) collaborators \<Rightarrow> string \<Rightarrow> 'c cloud_init_iso \<Rightarrow> error + 'c cloud_init_iso" where
  \<comment> \<open>The statements on the \<^verbatim>\<open>meta-data\<close> entry.\<close>
  "rewrite_meta_data C destination_name qemu_iso =
     bind_pure (iso_at qemu_iso ''meta-data'') (\<lambda>meta_data_file_content.
     bind_pure (make_cloud_init_meta_config C destination_name meta_data_file_content) (\<lambda>node.
     Inr (iso_assign qemu_iso ''meta-data'' (emit_cloud_config C node))))"

definition rewrite_network_config ::
  "('w, 'c, 'y, 'vm, 'm) collaborators \<Rightarrow> vm_specs \<Rightarrow> 'c cloud_init_iso \<Rightarrow> error + 'c cloud_init_iso" where
  \<comment> \<open>The conditional on the \<^verbatim>\<open>network-config\<close> entry.\<close>
  "rewrite_network_config C dest_vm_spec qemu_iso =
     (if iso_contains qemu_iso ''network-config''
      then bind_pure (iso_at qemu_iso ''network-config'') (\<lambda>network_config_file_content.
           bind_pure (make_cloud_init_network_config C (default_mac_address dest_vm_spec)
                        (extra_interfaces dest_vm_spec) network_config_file_content) (\<lambda>node.
           Inr (iso_assign qemu_iso ''network-config'' (emit_cloud_config C node))))
      else Inr qemu_iso)"

definition dest_vm_desc :: "vm_specs \<Rightarrow> string \<Rightarrow> 'm vm_image \<Rightarrow> path \<Rightarrow> ('m, 'y) vm_description" where
  "dest_vm_desc dest_vm_spec destination_name dest_vm_image iso_path =
     \<lparr>desc_num_cores = num_cores dest_vm_spec,
      desc_mem_size = mem_size dest_vm_spec,
      desc_disk_space = disk_space dest_vm_spec,
      vm_name = destination_name,
      desc_default_mac_address = default_mac_address dest_vm_spec,
      desc_extra_interfaces = extra_interfaces dest_vm_spec,
      desc_ssh_username = ssh_username dest_vm_spec,
      image = dest_vm_image,
      cloud_init_iso = iso_path,
      meta_data_config = None,
      user_data_config = None,
      vendor_data_config = None,
      network_data_config = None\<rparr>"

definition clone_steps ::
  "('w, 'c, 'y, 'vm, 'm) collaborators \<Rightarrow> path \<Rightarrow> path \<Rightarrow> vm_specs \<Rightarrow> vm_specs \<Rightarrow> string \<Rightarrow> string \<Rightarrow>
   'm vm_image \<Rightarrow> ('w, 'c) state \<Rightarrow> (error + 'vm) \<times> ('w, 'c) state" where
  \<comment> \<open>The statements in the guard's scope, from the copy to the dismissal.\<close>
  "clone_steps C source_dir dest_dir src_vm_spec dest_vm_spec source_name destination_name dest_vm_image =
     bind (call (Copy source_dir dest_dir) (fs_copy C source_dir dest_dir)) (\<lambda>_.
     bind (call (ReadFrom (cloud_init_config_iso_file_path dest_dir))
             (iso_read_from C (cloud_init_config_iso_file_path dest_dir))) (\<lambda>qemu_iso.
     bind (lift (rewrite_meta_data C destination_name qemu_iso)) (\<lambda>qemu_iso1.
     bind (lift (rewrite_network_config C dest_vm_spec qemu_iso1)) (\<lambda>qemu_iso2.
     bind (call (WriteTo qemu_iso2 (cloud_init_config_iso_file_path dest_dir))
             (iso_write_to C qemu_iso2 (cloud_init_config_iso_file_path dest_dir))) (\<lambda>_.
     bind (create_virtual_machine C
             (dest_vm_desc dest_vm_spec destination_name dest_vm_image
                (cloud_init_config_iso_file_path dest_dir))) (\<lambda>cloned_instance.
     bind (call (LoadSnapshots source_name)
             (load_snapshots_and_update_unique_identifiers C cloned_instance src_vm_spec dest_vm_spec
                source_name)) (\<lambda>cloned_instance'.
     bind dismiss (\<lambda>_.
     lift (Inr cloned_instance')))))))))"

definition create_vm_and_instance_disk_data ::
  "('w, 'c, 'y, 'vm, 'm) collaborators \<Rightarrow> path \<Rightarrow> vm_specs \<Rightarrow> vm_specs \<Rightarrow> string \<Rightarrow> string \<Rightarrow>
   'm vm_image \<Rightarrow> 'w \<Rightarrow> (error + 'vm) \<times> ('w, 'c) state" where
  \<comment> \<open>The guard is armed when it is made; when the scope is left, by return or by
      exception, its callback runs unless it was dismissed.\<close>
  "create_vm_and_instance_disk_data C data_directory src_vm_spec dest_vm_spec source_name
     destination_name dest_vm_image w =
     (let source_instance_data_directory = instance_data_directory C data_directory source_name;
          dest_instance_data_directory = instance_data_directory C data_directory destination_name
      in case clone_steps C source_instance_data_directory dest_instance_data_directory
                src_vm_spec dest_vm_spec source_name destination_name dest_vm_image
                \<lparr>world = w, trace = [], guard_active = True\<rparr> of
           (r, st) \<Rightarrow>
             if guard_active st then (r, snd (rollback C dest_instance_data_directory st))
             else (r, st))"

subsection \<open>Image preparation\<close>

text \<open>
  \<^verbatim>\<open>prepare_source_image\<close> takes the two routines of \<^verbatim>\<open>qemu_img_utils\<close> it calls as
  arguments; \<open>'s\<close> is whatever they act on.
\<close>

definition prepare_source_image ::
  "(string \<Rightarrow> 's \<Rightarrow> (error + string) \<times> 's) \<Rightarrow> (string \<Rightarrow> 's \<Rightarrow> (error + unit) \<times> 's) \<Rightarrow>
   'm vm_image \<Rightarrow> 's \<Rightarrow> (error + 'm vm_image) \<times> 's" where
  "prepare_source_image convert_to_qcow_if_necessary amend_to_qcow2_v3 source_image =
     bind (convert_to_qcow_if_necessary (image_path source_image)) (\<lambda>converted.
     bind (amend_to_qcow2_v3 converted) (\<lambda>_.
     lift (Inr (source_image\<lparr>image_path := converted\<rparr>))))"

datatype image_format = qcow2 | other_format string

record image_info =
  format :: image_format
  revision :: nat

type_synonym image_store = "string \<Rightarrow> image_info option"

text \<open>
  Modelled from the spec: \<^verbatim>\<open>backend::convert_to_qcow_if_necessary\<close> (the image utilities
  are not part of the file) converts the image to the backend's required container
  format if it is not already in it; the path may change after conversion, to
  \<open>converted_path\<close> of the old one. The images are a store from paths to format and
  revision.
\<close>

definition convert_to_qcow_if_necessary ::
  "(string \<Rightarrow> string) \<Rightarrow> string \<Rightarrow> image_store \<Rightarrow> (error + string) \<times> image_store" where
  "convert_to_qcow_if_necessary converted_path img_path store =
     (case store img_path of
        None \<Rightarrow> (Inl (runtime_error img_path), store)
      | Some info \<Rightarrow>
          if format info = qcow2 then (Inr img_path, store)
          else (Inr (converted_path img_path),
                store(converted_path img_path \<mapsto> info\<lparr>format := qcow2\<rparr>)))"

text \<open>
  Modelled from the spec: \<^verbatim>\<open>backend::amend_to_qcow2_v3\<close> normalizes the image's internal
  format revision, to 3.
\<close>

definition amend_to_qcow2_v3 :: "string \<Rightarrow> image_store \<Rightarrow> (error + unit) \<times> image_store" where
  "amend_to_qcow2_v3 img_path store =
     (case store img_path of
        None \<Rightarrow> (Inl (runtime_error img_path), store)
      | Some info \<Rightarrow> (Inr (), store(img_path \<mapsto> info\<lparr>revision := 3\<rparr>)))"

subsection \<open>The version probe\<close>

text \<open>
  What \<^verbatim>\<open>process->execute()\<close> returns (the exit state: exit code, error, failure message)
  and what the reads of the process's standard output and standard error return. The
  process layer reports a subprocess that fails to start in the exit state.
\<close>

record process_run =
  exit_code :: "int option"
  error :: "string option"
  failure_message :: string
  standard_output :: string
  standard_error :: string


datatype log_level = level_error | level_warning | level_info | level_debug






subsection \<open>The meta-data document\<close>

text \<open>
  A meta-data document as its ordered list of fields. The content of an archive entry
  is read as a document by \<open>parse\<close>, which fails on content that is not a document.
\<close>

type_synonym document = "(string \<times> string) list"

text \<open>
  Modelled from the spec: \<^verbatim>\<open>utils::make_cloud_init_meta_config\<close> (the YAML utilities are not
  part of the file) derives the new document from the existing content plus the new
  name: the identity field, of key \<open>identity_key\<close>, becomes the name and every other
  field is kept. Content that is not a document is an error.
\<close>

definition make_cloud_init_meta_config_model ::
  "('c \<Rightarrow> document option) \<Rightarrow> string \<Rightarrow> string \<Rightarrow> 'c \<Rightarrow> error + document" where
  "make_cloud_init_meta_config_model parse identity_key name file_content =
     (case parse file_content of
        None \<Rightarrow> Inl (yaml_error ''meta-data'')
      | Some doc \<Rightarrow> Inr (AList.update identity_key name doc))"

subsection \<open>An in-memory environment\<close>

text \<open>
  Collaborators over an in-memory disk of directories and archive files, to run the
  model on concrete inputs. The file operations behave as those of
  \<^verbatim>\<open>std::filesystem\<close>: the recursive copy throws on a source that does not exist and on
  a file that is already at the destination; the removal deletes a file or an empty
  directory, and on a directory that is not empty it fails with an error code and
  deletes nothing. \<open>fault\<close> names the step that throws, if any; a copy that is made to
  throw has created the destination directory and copied the first \<open>n\<close> files.
\<close>

record 'c disk =
  directories :: "path list"
  archives :: "(path \<times> 'c cloud_init_iso) list"

datatype step = CopyStep nat | ReadStep | RewriteStep | WriteStep | ConstructStep | SnapshotStep

definition under :: "path \<Rightarrow> path \<Rightarrow> bool" where
  "under dir p = (take (length dir) p = dir)"

definition relocate :: "path \<Rightarrow> path \<Rightarrow> path \<Rightarrow> path" where
  "relocate src dst p = dst @ drop (length src) p"

definition entries :: "'c disk \<Rightarrow> path list" where
  "entries d = directories d @ map fst (archives d)"

definition in_memory :: "step option \<Rightarrow> ('c disk, 'c, 'c, string, unit) collaborators" where
  "in_memory fault =
     \<lparr>get_directory_name = ''qemu'',
      get_instance_directory = (\<lambda>name. [''data'', ''qemu'', ''vault'', ''instances'', name]),
      fs_copy = (\<lambda>src dst d.
        let files = map (\<lambda>(p, a). (relocate src dst p, a))
                      (filter (\<lambda>(p, a). under src p) (archives d));
            dirs = map (relocate src dst) (filter (under src) (directories d))
        in if src \<notin> set (directories d)
           then (Inl (filesystem_error ''No such file or directory''), d)
           else if filter (\<lambda>(p, a). p \<in> set (map fst (archives d))) files \<noteq> []
           then (Inl (filesystem_error ''File exists''), d)
           else (case fault of
                   Some (CopyStep n) \<Rightarrow>
                     (Inl (filesystem_error ''No space left on device''),
                      \<lparr>directories = dst # directories d,
                       archives = take n files @ archives d\<rparr>)
                 | _ \<Rightarrow>
                     (Inr (),
                      \<lparr>directories = dirs @ directories d,
                       archives = files @ archives d\<rparr>))),
      fs_exists = (\<lambda>p d. (p \<in> set (entries d), None)),
      fs_remove = (\<lambda>p d.
        if filter (\<lambda>q. under p q \<and> q \<noteq> p) (entries d) \<noteq> []
        then ((False, Some (filesystem_error ''Directory not empty'')), d)
        else ((p \<in> set (entries d), None),
              \<lparr>directories = removeAll p (directories d),
               archives = filter (\<lambda>(q, a). q \<noteq> p) (archives d)\<rparr>)),
      iso_read_from = (\<lambda>p d.
        if fault = Some ReadStep then (Inl (runtime_error ''read_from''), d)
        else (case map_of (archives d) p of
                None \<Rightarrow> (Inl (runtime_error ''read_from''), d)
              | Some a \<Rightarrow> (Inr a, d))),
      iso_write_to = (\<lambda>a p d.
        if fault = Some WriteStep then (Inl (runtime_error ''write_to''), d)
        else (Inr (), d\<lparr>archives := AList.update p a (archives d)\<rparr>)),
      make_cloud_init_meta_config = (\<lambda>name content.
        if fault = Some RewriteStep then Inl (yaml_error ''meta-data'') else Inr content),
      make_cloud_init_network_config = (\<lambda>mac extra content. Inr content),
      emit_cloud_config = (\<lambda>node. node),
      construct_vm = (\<lambda>desc dir d.
        if fault = Some ConstructStep then (Inl (runtime_error ''construct''), d)
        else (Inr (vm_name desc), d)),
      load_snapshots_and_update_unique_identifiers = (\<lambda>vm src_spec dest_spec source_name d.
        if fault = Some SnapshotStep then (Inl (runtime_error ''snapshots''), d)
        else (Inr vm, d))\<rparr>"

type_synonym text_collaborators = "(string disk, string, string, string, unit) collaborators"

type_synonym document_collaborators = "(document disk, document, document, string, unit) collaborators"

definition primary_dir :: path where
  "primary_dir = [''data'', ''qemu'', ''vault'', ''instances'', ''primary'']"

definition clone1_dir :: path where
  "clone1_dir = [''data'', ''qemu'', ''vault'', ''instances'', ''clone1'']"

definition primary_disk :: "'c cloud_init_iso \<Rightarrow> 'c disk" where
  \<comment> \<open>A disk with the one instance \<^verbatim>\<open>primary\<close> and its archive.\<close>
  "primary_disk archive =
     \<lparr>directories = [primary_dir],
      archives = [(primary_dir @ [''cloud-init-config.iso''], archive)]\<rparr>"

definition specs :: vm_specs where
  "specs = \<lparr>num_cores = 2, mem_size = 1024, disk_space = 4096,
            default_mac_address = ''52:54:00:00:00:01'', extra_interfaces = [],
            ssh_username = ''ubuntu''\<rparr>"

definition disk_image :: "unit vm_image" where
  "disk_image = \<lparr>image_path = ''clone1.img'', metadata = ()\<rparr>"

definition clone_primary :: "step option \<Rightarrow> (error + string) \<times> (string disk, string) state" where
  \<comment> \<open>The scenario run below: \<^verbatim>\<open>primary\<close> is cloned to \<^verbatim>\<open>clone1\<close> under the data root \<^verbatim>\<open>data\<close>.\<close>
  "clone_primary fault =
     create_vm_and_instance_disk_data (in_memory fault) [''data''] specs specs
       ''primary'' ''clone1'' disk_image (primary_disk [(''meta-data'', ''instance-id: primary'')])"

section \<open>Properties\<close>

subsection \<open>Auxiliary facts\<close>

lemmas run_defs = clone_steps_def bind_def lift_def call_def create_virtual_machine_def dismiss_def

lemmas eval_defs = create_vm_and_instance_disk_data_def run_defs rollback_def
  instance_data_directory_def instances_data_directory_def backend_directory_path_def
  get_backend_directory_name_def path_append_def cloud_init_config_iso_file_path_def
  rewrite_meta_data_def rewrite_network_config_def bind_pure_def iso_at_def iso_contains_def
  iso_assign_def dest_vm_desc_def in_memory_def primary_disk_def primary_dir_def clone1_dir_def
  under_def relocate_def entries_def is_absolute_def clone_primary_def Let_def

lemma vm_name_dest_vm_desc:
  "vm_name (dest_vm_desc dest_vm_spec destination_name dest_vm_image iso_path) = destination_name"
  by (simp add: dest_vm_desc_def)

lemma clone_steps_guard:
  assumes "clone_steps C sdir ddir src dst sn dn img st0 = (r, st1)"
  shows "guard_active st1 = (case r of Inl e \<Rightarrow> guard_active st0 | Inr vm \<Rightarrow> False)"
  using assms
  by (auto simp: run_defs split: prod.splits sum.splits)

lemma clone_steps_success:
  assumes "clone_steps C sdir ddir src dst sn dn img st0 = (Inr vm, st1)"
  shows "\<exists>w1 w2 w3 w4 archive archive1 archive2 vm0.
           fs_copy C sdir ddir (world st0) = (Inr (), w1) \<and>
           iso_read_from C (cloud_init_config_iso_file_path ddir) w1 = (Inr archive, w2) \<and>
           rewrite_meta_data C dn archive = Inr archive1 \<and>
           rewrite_network_config C dst archive1 = Inr archive2 \<and>
           iso_write_to C archive2 (cloud_init_config_iso_file_path ddir) w2 = (Inr (), w3) \<and>
           construct_vm C (dest_vm_desc dst dn img (cloud_init_config_iso_file_path ddir))
             (get_instance_directory C dn) w3 = (Inr vm0, w4) \<and>
           load_snapshots_and_update_unique_identifiers C vm0 src dst sn w4 = (Inr vm, world st1) \<and>
           trace st1 = trace st0 @
             [Copy sdir ddir, ReadFrom (cloud_init_config_iso_file_path ddir),
              WriteTo archive2 (cloud_init_config_iso_file_path ddir),
              Construct dn (get_instance_directory C dn), LoadSnapshots sn, Dismiss]"
  using assms
  by (auto simp: run_defs dest_vm_desc_def split: prod.splits sum.splits)

lemma clone_steps_failure:
  assumes "clone_steps C sdir ddir src dst sn dn img st0 = (Inl e, st1)"
  shows "\<exists>evs. trace st1 = trace st0 @ Copy sdir ddir # evs \<and> Dismiss \<notin> set evs \<and>
           (\<forall>p. Exists p \<notin> set evs \<and> Remove p \<notin> set evs) \<and>
           (\<forall>p. ReadFrom p \<in> set evs \<longrightarrow> p = cloud_init_config_iso_file_path ddir) \<and>
           (\<forall>a p. WriteTo a p \<in> set evs \<longrightarrow> p = cloud_init_config_iso_file_path ddir)"
  using assms
  by (auto simp: run_defs split: prod.splits sum.splits)

lemma rollback_result:
  assumes "rollback C p st = (r, st')"
  shows "r = Inr () \<and> guard_active st' = guard_active st \<and>
     (if fst (fs_exists C p (world st))
      then world st' = snd (fs_remove C p (world st)) \<and> trace st' = trace st @ [Exists p, Remove p]
      else world st' = world st \<and> trace st' = trace st @ [Exists p])"
  using assms
  by (auto simp: rollback_def Let_def split: prod.splits)

lemma clone_cases:
  assumes "create_vm_and_instance_disk_data C data_directory src dst sn dn img w = (r, st)"
  obtains (committed) vm where "r = Inr vm" "\<not> guard_active st"
      "clone_steps C (instance_data_directory C data_directory sn)
         (instance_data_directory C data_directory dn) src dst sn dn img
         \<lparr>world = w, trace = [], guard_active = True\<rparr> = (Inr vm, st)"
    | (rolled_back) e st1 where "r = Inl e" "guard_active st"
      "clone_steps C (instance_data_directory C data_directory sn)
         (instance_data_directory C data_directory dn) src dst sn dn img
         \<lparr>world = w, trace = [], guard_active = True\<rparr> = (Inl e, st1)"
      "rollback C (instance_data_directory C data_directory dn) st1 = (Inr (), st)"
proof -
  let ?ddir = "instance_data_directory C data_directory dn"
  let ?run = "clone_steps C (instance_data_directory C data_directory sn) ?ddir src dst sn dn img
                \<lparr>world = w, trace = [], guard_active = True\<rparr>"
  obtain r1 st1 where steps: "?run = (r1, st1)"
    by (cases ?run)
  have r: "r = r1" and st: "st = (if guard_active st1 then snd (rollback C ?ddir st1) else st1)"
    using assms steps by (auto simp: create_vm_and_instance_disk_data_def Let_def split: if_splits)
  show thesis
  proof (cases r1)
    case (Inr vm)
    then have "\<not> guard_active st1"
      using clone_steps_guard[OF steps] by simp
    then show thesis
      using committed[of vm] Inr r st steps by simp
  next
    case (Inl e)
    then have active: "guard_active st1"
      using clone_steps_guard[OF steps] by simp
    obtain r' where rb: "rollback C ?ddir st1 = (r', st)"
      using st active by (cases "rollback C ?ddir st1") simp
    from rollback_result[OF rb] have "r' = Inr ()" "guard_active st"
      using active by simp_all
    then show thesis
      using rolled_back[of e st1] Inl r rb steps by simp
  qed
qed

lemma rewrite_meta_data_result:
  assumes "rewrite_meta_data C dn archive = Inr archive1"
  shows "\<exists>old node. map_of archive ''meta-data'' = Some old \<and>
           make_cloud_init_meta_config C dn old = Inr node \<and>
           archive1 = AList.update ''meta-data'' (emit_cloud_config C node) archive"
  using assms
  by (auto simp: rewrite_meta_data_def bind_pure_def iso_at_def iso_assign_def
           split: sum.splits option.splits)

lemma rewrite_network_config_result:
  assumes "rewrite_network_config C dst archive1 = Inr archive2"
  shows "(\<not> iso_contains archive1 ''network-config'' \<longrightarrow> archive2 = archive1) \<and>
         (\<forall>name. name \<noteq> ''network-config'' \<longrightarrow> map_of archive2 name = map_of archive1 name)"
  using assms
  by (auto simp: rewrite_network_config_def bind_pure_def iso_at_def iso_assign_def update_conv'
           split: sum.splits option.splits if_splits)

subsection \<open>Rollback on failure\<close>

text \<open>
  Claim C1 does not hold of the code. The instance \<^verbatim>\<open>primary\<close> is cloned to \<^verbatim>\<open>clone1\<close> and
  the archive read throws after the recursive copy has filled the destination
  directory. The guard's callback runs: the existence check finds the directory, the
  one removal it calls is not recursive and fails on the directory, which is not
  empty, and the callback drops the error code. The error of the read surfaces with
  the destination directory and the copied archive still on the disk. The same happens
  when the rewrite, the write-back, the construction of the handle or the snapshot load
  throws, and when the copy throws after it has copied a file; the directory is gone
  only when the copy throws before it has copied anything.
\<close>

theorem clone_failure_leaves_directory:
  "create_vm_and_instance_disk_data (in_memory (Some ReadStep)) [''data''] specs specs
     ''primary'' ''clone1'' disk_image (primary_disk [(''meta-data'', ''instance-id: primary'')])
   = (Inl (runtime_error ''read_from''),
      \<lparr>world = \<lparr>directories = [clone1_dir, primary_dir],
                 archives = [(clone1_dir @ [''cloud-init-config.iso''],
                                [(''meta-data'', ''instance-id: primary'')]),
                             (primary_dir @ [''cloud-init-config.iso''],
                                [(''meta-data'', ''instance-id: primary'')])]\<rparr>,
       trace = [Copy primary_dir clone1_dir,
                ReadFrom (clone1_dir @ [''cloud-init-config.iso'']),
                Exists clone1_dir, Remove clone1_dir],
       guard_active = True\<rparr>) \<and>
   fst (clone_primary (Some RewriteStep)) = Inl (yaml_error ''meta-data'') \<and>
   clone1_dir \<in> set (directories (world (snd (clone_primary (Some RewriteStep))))) \<and>
   fst (clone_primary (Some WriteStep)) = Inl (runtime_error ''write_to'') \<and>
   clone1_dir \<in> set (directories (world (snd (clone_primary (Some WriteStep))))) \<and>
   fst (clone_primary (Some ConstructStep)) = Inl (runtime_error ''construct'') \<and>
   clone1_dir \<in> set (directories (world (snd (clone_primary (Some ConstructStep))))) \<and>
   fst (clone_primary (Some SnapshotStep)) = Inl (runtime_error ''snapshots'') \<and>
   clone1_dir \<in> set (directories (world (snd (clone_primary (Some SnapshotStep))))) \<and>
   fst (clone_primary (Some (CopyStep (Suc 0)))) = Inl (filesystem_error ''No space left on device'') \<and>
   clone1_dir \<in> set (directories (world (snd (clone_primary (Some (CopyStep (Suc 0))))))) \<and>
   fst (clone_primary (Some (CopyStep 0))) = Inl (filesystem_error ''No space left on device'') \<and>
   clone1_dir \<notin> set (directories (world (snd (clone_primary (Some (CopyStep 0))))))"
  by (simp add: eval_defs)

subsection \<open>Commit on success\<close>

text \<open>
  Claim C5. The guard is dismissed exactly when the clone returns a handle, and the
  dismissal is logged exactly then. When it is dismissed every step has succeeded, in
  order: the copy, the archive read, both rewrites, the write-back, the construction of
  the handle and the snapshot load; the dismissal is the last call, the callback's
  \<open>Exists\<close> and \<open>Remove\<close> were never called, and the world returned is the one the
  snapshot load left.
\<close>

theorem guard_dismissed_only_after_all_steps:
  assumes "create_vm_and_instance_disk_data C data_directory src dst sn dn img w = (r, st)"
  shows "(guard_active st \<longleftrightarrow> (\<exists>e. r = Inl e)) \<and>
         (Dismiss \<in> set (trace st) \<longleftrightarrow> \<not> guard_active st) \<and>
         (\<not> guard_active st \<longrightarrow>
            (\<exists>w1 w2 w3 w4 archive archive1 archive2 vm0 vm.
               fs_copy C (instance_data_directory C data_directory sn)
                 (instance_data_directory C data_directory dn) w = (Inr (), w1) \<and>
               iso_read_from C
                 (cloud_init_config_iso_file_path (instance_data_directory C data_directory dn)) w1
                 = (Inr archive, w2) \<and>
               rewrite_meta_data C dn archive = Inr archive1 \<and>
               rewrite_network_config C dst archive1 = Inr archive2 \<and>
               iso_write_to C archive2
                 (cloud_init_config_iso_file_path (instance_data_directory C data_directory dn)) w2
                 = (Inr (), w3) \<and>
               construct_vm C
                 (dest_vm_desc dst dn img
                    (cloud_init_config_iso_file_path (instance_data_directory C data_directory dn)))
                 (get_instance_directory C dn) w3 = (Inr vm0, w4) \<and>
               load_snapshots_and_update_unique_identifiers C vm0 src dst sn w4 = (Inr vm, world st) \<and>
               r = Inr vm \<and>
               trace st =
                 [Copy (instance_data_directory C data_directory sn)
                    (instance_data_directory C data_directory dn),
                  ReadFrom (cloud_init_config_iso_file_path (instance_data_directory C data_directory dn)),
                  WriteTo archive2
                    (cloud_init_config_iso_file_path (instance_data_directory C data_directory dn)),
                  Construct dn (get_instance_directory C dn), LoadSnapshots sn, Dismiss]))"
  using assms
proof (cases rule: clone_cases)
  case (committed vm)
  from clone_steps_success[OF committed(3)] committed(1,2) show ?thesis
    by auto
next
  case (rolled_back e st1)
  from clone_steps_failure[OF rolled_back(3)] obtain evs
    where evs: "trace st1 = Copy (instance_data_directory C data_directory sn)
                  (instance_data_directory C data_directory dn) # evs" "Dismiss \<notin> set evs"
    by auto
  from rollback_result[OF rolled_back(4)] evs have "Dismiss \<notin> set (trace st)"
    by (auto split: if_splits)
  with rolled_back(1,2) show ?thesis
    by simp
qed

theorem guard_dismissed_only_after_all_steps_witness:
  "fst (clone_primary None) = Inr ''clone1'' \<and>
   \<not> guard_active (snd (clone_primary None)) \<and>
   trace (snd (clone_primary None)) =
     [Copy primary_dir clone1_dir,
      ReadFrom (clone1_dir @ [''cloud-init-config.iso'']),
      WriteTo [(''meta-data'', ''instance-id: primary'')] (clone1_dir @ [''cloud-init-config.iso'']),
      Construct ''clone1'' clone1_dir, LoadSnapshots ''primary'', Dismiss] \<and>
   fst (fs_exists (in_memory None) clone1_dir (world (snd (clone_primary None)))) \<and>
   guard_active (snd (clone_primary (Some SnapshotStep))) \<and>
   Dismiss \<notin> set (trace (snd (clone_primary (Some SnapshotStep))))"
proof -
  have outcome: "fst (clone_primary None) = Inr ''clone1''"
    "fst (clone_primary (Some SnapshotStep)) = Inl (runtime_error ''snapshots'')"
    by (simp_all add: eval_defs)
  then have committed: "clone_primary None = (Inr ''clone1'', snd (clone_primary None))"
    and failed: "clone_primary (Some SnapshotStep)
       = (Inl (runtime_error ''snapshots''), snd (clone_primary (Some SnapshotStep)))"
    by (simp_all add: prod_eq_iff)
  have evaluated:
    "trace (snd (clone_primary None)) =
       [Copy primary_dir clone1_dir,
        ReadFrom (clone1_dir @ [''cloud-init-config.iso'']),
        WriteTo [(''meta-data'', ''instance-id: primary'')] (clone1_dir @ [''cloud-init-config.iso'']),
        Construct ''clone1'' clone1_dir, LoadSnapshots ''primary'', Dismiss]"
    "fst (fs_exists (in_memory None) clone1_dir (world (snd (clone_primary None))))"
    by (simp_all add: eval_defs)
  from guard_dismissed_only_after_all_steps[OF committed[unfolded clone_primary_def]]
    guard_dismissed_only_after_all_steps[OF failed[unfolded clone_primary_def]]
  have "\<not> guard_active (snd (clone_primary None))"
    "guard_active (snd (clone_primary (Some SnapshotStep)))"
    "Dismiss \<notin> set (trace (snd (clone_primary (Some SnapshotStep))))"
    by (simp_all add: clone_primary_def)
  with outcome evaluated show ?thesis
    by simp
qed

subsection \<open>The guard's callback\<close>

text \<open>
  Claim C6. The callback returns normally on every state and for every behaviour of the
  two file operations, whatever result and error code they report. When the directory
  is reported absent, nothing is removed: the world is unchanged and only the existence
  check was called.
\<close>

theorem rollback_never_raises:
  "fst (rollback C p st) = Inr () \<and>
   (\<not> fst (fs_exists C p (world st)) \<longrightarrow>
      snd (rollback C p st) = st\<lparr>trace := trace st @ [Exists p]\<rparr>)"
  by (auto simp: rollback_def Let_def split: prod.splits)

theorem rollback_never_raises_witness:
  "\<not> fst (fs_exists (in_memory None) clone1_dir (primary_disk ([] :: string cloud_init_iso))) \<and>
   rollback (in_memory None) clone1_dir
     \<lparr>world = primary_disk ([] :: string cloud_init_iso), trace = [], guard_active = True\<rparr>
   = (Inr (), \<lparr>world = primary_disk [], trace = [Exists clone1_dir], guard_active = True\<rparr>) \<and>
   fst (fs_exists (in_memory None) primary_dir (primary_disk ([] :: string cloud_init_iso))) \<and>
   fst (rollback (in_memory None) primary_dir
     \<lparr>world = primary_disk ([] :: string cloud_init_iso), trace = [], guard_active = True\<rparr>) = Inr ()"
proof -
  have absent: "\<not> fst (fs_exists (in_memory None) clone1_dir (primary_disk ([] :: string cloud_init_iso)))"
    and present: "fst (fs_exists (in_memory None) primary_dir (primary_disk ([] :: string cloud_init_iso)))"
    by (simp_all add: in_memory_def entries_def primary_disk_def primary_dir_def clone1_dir_def)
  from rollback_never_raises[of "in_memory None" clone1_dir
      "\<lparr>world = primary_disk ([] :: string cloud_init_iso), trace = [], guard_active = True\<rparr>"]
    rollback_never_raises[of "in_memory None" primary_dir
      "\<lparr>world = primary_disk ([] :: string cloud_init_iso), trace = [], guard_active = True\<rparr>"]
    absent present
  show ?thesis
    by (simp add: prod_eq_iff)
qed

subsection \<open>Handle creation\<close>

text \<open>
  Claim C9. \<open>create_virtual_machine\<close> calls the constructor once, on the description it
  was given and the instance directory of the description's name, and nothing else: its
  outcome is the constructor's (a handle, or the constructor's error as it is) and the
  world it leaves is the one the constructor left; no file operation is called.
\<close>

theorem create_virtual_machine_only_constructs:
  assumes "create_virtual_machine C desc st = (r, st')"
  shows "construct_vm C desc (get_instance_directory C (vm_name desc)) (world st) = (r, world st') \<and>
         trace st' = trace st @ [Construct (vm_name desc) (get_instance_directory C (vm_name desc))] \<and>
         guard_active st' = guard_active st"
  using assms
  by (auto simp: create_virtual_machine_def call_def split: prod.splits)

theorem create_virtual_machine_only_constructs_witness:
  "create_virtual_machine (in_memory None)
     (dest_vm_desc specs ''clone1'' disk_image (clone1_dir @ [''cloud-init-config.iso'']))
     \<lparr>world = primary_disk ([] :: string cloud_init_iso), trace = [], guard_active = True\<rparr>
   = (Inr ''clone1'',
      \<lparr>world = primary_disk [], trace = [Construct ''clone1'' clone1_dir], guard_active = True\<rparr>) \<and>
   create_virtual_machine (in_memory (Some ConstructStep))
     (dest_vm_desc specs ''clone1'' disk_image (clone1_dir @ [''cloud-init-config.iso'']))
     \<lparr>world = primary_disk ([] :: string cloud_init_iso), trace = [], guard_active = True\<rparr>
   = (Inl (runtime_error ''construct''),
      \<lparr>world = primary_disk [], trace = [Construct ''clone1'' clone1_dir], guard_active = True\<rparr>)"
proof -
  let ?desc = "dest_vm_desc specs ''clone1'' disk_image (clone1_dir @ [''cloud-init-config.iso''])
                 :: (unit, string) vm_description"
  let ?st = "\<lparr>world = primary_disk ([] :: string cloud_init_iso), trace = [], guard_active = True\<rparr>"
  have name: "vm_name ?desc = ''clone1''"
    by (simp add: dest_vm_desc_def)
  have dir: "get_instance_directory (in_memory None) ''clone1'' = clone1_dir"
    "get_instance_directory (in_memory (Some ConstructStep)) ''clone1'' = clone1_dir"
    by (simp_all add: in_memory_def clone1_dir_def)
  have made: "construct_vm (in_memory None) ?desc clone1_dir (world ?st)
              = (Inr ''clone1'', primary_disk [])"
    and thrown: "construct_vm (in_memory (Some ConstructStep)) ?desc clone1_dir (world ?st)
              = (Inl (runtime_error ''construct''), primary_disk [])"
    by (simp_all add: in_memory_def dest_vm_desc_def)
  obtain r1 st1 r2 st2
    where run1: "create_virtual_machine (in_memory None) ?desc ?st = (r1, st1)"
      and run2: "create_virtual_machine (in_memory (Some ConstructStep)) ?desc ?st = (r2, st2)"
    by (metis surj_pair)
  from create_virtual_machine_only_constructs[OF run1] made
  have "r1 = Inr ''clone1''" "world st1 = primary_disk []"
    "trace st1 = [Construct ''clone1'' clone1_dir]" "guard_active st1"
    by (simp_all add: name dir)
  moreover
  from create_virtual_machine_only_constructs[OF run2] thrown
  have "r2 = Inl (runtime_error ''construct'')" "world st2 = primary_disk []"
    "trace st2 = [Construct ''clone1'' clone1_dir]" "guard_active st2"
    by (simp_all add: name dir)
  ultimately show ?thesis
    using run1 run2 by simp
qed

subsection \<open>The directory layout\<close>

text \<open>
  Claim C8, as amended. For instance names that are not absolute paths, the source and
  destination instance directories are
  \<^verbatim>\<open><data_root>/<backend-directory-name>/vault/instances/<name>\<close>, the backend directory
  name being the platform's \<open>get_directory_name\<close>; the copy, which is the first call of
  every clone, goes from the first to the second; every archive read and write of the
  clone is on \<^verbatim>\<open>cloud-init-config.iso\<close> directly under the destination directory, and
  the callback checks and removes that directory only.
\<close>

theorem clone_directory_layout:
  assumes relative: "\<not> is_absolute sn" "\<not> is_absolute dn"
    and run: "create_vm_and_instance_disk_data C data_root src dst sn dn img w = (r, st)"
  shows "instance_data_directory C data_root sn
           = data_root @ [get_directory_name C, ''vault'', ''instances'', sn] \<and>
         instance_data_directory C data_root dn
           = data_root @ [get_directory_name C, ''vault'', ''instances'', dn] \<and>
         (\<exists>evs. trace st =
                  Copy (data_root @ [get_directory_name C, ''vault'', ''instances'', sn])
                       (data_root @ [get_directory_name C, ''vault'', ''instances'', dn]) # evs \<and>
            (\<forall>p. ReadFrom p \<in> set evs \<longrightarrow>
                   p = data_root @ [get_directory_name C, ''vault'', ''instances'', dn,
                                    ''cloud-init-config.iso'']) \<and>
            (\<forall>a p. WriteTo a p \<in> set evs \<longrightarrow>
                   p = data_root @ [get_directory_name C, ''vault'', ''instances'', dn,
                                    ''cloud-init-config.iso'']) \<and>
            (\<forall>p. Exists p \<in> set evs \<or> Remove p \<in> set evs \<longrightarrow>
                   p = data_root @ [get_directory_name C, ''vault'', ''instances'', dn]))"
proof -
  have fixed: "\<not> is_absolute ''vault''" "\<not> is_absolute ''instances''"
    "\<not> is_absolute ''cloud-init-config.iso''"
    by (simp_all add: is_absolute_def)
  have dirs: "instance_data_directory C data_root name
                = data_root @ [get_directory_name C, ''vault'', ''instances'', name]"
    if "\<not> is_absolute name" for name
    using that fixed
    by (simp add: instance_data_directory_def instances_data_directory_def
          backend_directory_path_def get_backend_directory_name_def path_append_def)
  note paths = dirs[OF relative(1)] dirs[OF relative(2)] cloud_init_config_iso_file_path_def
    path_append_def fixed
  from run show ?thesis
  proof (cases rule: clone_cases)
    case (committed vm)
    from clone_steps_success[OF committed(3)] show ?thesis
      by (auto simp: paths)
  next
    case (rolled_back e st1)
    from clone_steps_failure[OF rolled_back(3)] rollback_result[OF rolled_back(4)]
    show ?thesis
      by (auto simp: paths split: if_splits)
  qed
qed

theorem clone_directory_layout_witness:
  "\<not> is_absolute ''primary'' \<and> \<not> is_absolute ''clone1'' \<and>
   instance_data_directory (in_memory None :: text_collaborators) [''data''] ''primary''
     = [''data'', ''qemu'', ''vault'', ''instances'', ''primary''] \<and>
   instance_data_directory (in_memory None :: text_collaborators) [''data''] ''clone1''
     = [''data'', ''qemu'', ''vault'', ''instances'', ''clone1''] \<and>
   hd (trace (snd (clone_primary None)))
     = Copy [''data'', ''qemu'', ''vault'', ''instances'', ''primary'']
            [''data'', ''qemu'', ''vault'', ''instances'', ''clone1''] \<and>
   ReadFrom [''data'', ''qemu'', ''vault'', ''instances'', ''clone1'', ''cloud-init-config.iso'']
     \<in> set (trace (snd (clone_primary None))) \<and>
   WriteTo [(''meta-data'', ''instance-id: primary'')]
       [''data'', ''qemu'', ''vault'', ''instances'', ''clone1'', ''cloud-init-config.iso'']
     \<in> set (trace (snd (clone_primary None)))"
proof -
  have relative: "\<not> is_absolute ''primary''" "\<not> is_absolute ''clone1''"
    by (simp_all add: is_absolute_def)
  have run: "clone_primary None = (fst (clone_primary None), snd (clone_primary None))"
    by simp
  have name: "get_directory_name (in_memory None :: text_collaborators) = ''qemu''"
    by (simp add: in_memory_def)
  have calls:
    "ReadFrom [''data'', ''qemu'', ''vault'', ''instances'', ''clone1'', ''cloud-init-config.iso'']
       \<in> set (trace (snd (clone_primary None)))"
    "WriteTo [(''meta-data'', ''instance-id: primary'')]
         [''data'', ''qemu'', ''vault'', ''instances'', ''clone1'', ''cloud-init-config.iso'']
       \<in> set (trace (snd (clone_primary None)))"
    by (simp_all add: eval_defs)
  from clone_directory_layout[OF relative run[unfolded clone_primary_def]]
  have "instance_data_directory (in_memory None :: text_collaborators) [''data''] ''primary''
          = [''data'', ''qemu'', ''vault'', ''instances'', ''primary'']"
    "instance_data_directory (in_memory None :: text_collaborators) [''data''] ''clone1''
          = [''data'', ''qemu'', ''vault'', ''instances'', ''clone1'']"
    "hd (trace (snd (clone_primary None)))
       = Copy [''data'', ''qemu'', ''vault'', ''instances'', ''primary'']
              [''data'', ''qemu'', ''vault'', ''instances'', ''clone1'']"
    by (auto simp: name clone_primary_def)
  with relative calls show ?thesis
    by simp
qed

text \<open>
  Claim C8 as stated fails for an absolute name: \<^verbatim>\<open>operator/\<close> replaces the path, and the
  clone of \<^verbatim>\<open>primary\<close> to the name \<^verbatim>\<open>/tmp/clone1\<close> copies to \<^verbatim>\<open>/tmp/clone1\<close>, which is
  not \<^verbatim>\<open>data/qemu/vault/instances//tmp/clone1\<close>.
\<close>

theorem clone_directory_layout_counterexample:
  "instance_data_directory (in_memory None :: text_collaborators) [''data''] ''/tmp/clone1''
     = [''/tmp/clone1''] \<and>
   [''/tmp/clone1''] \<noteq> [''data''] @ [get_directory_name (in_memory None :: text_collaborators),
                                     ''vault'', ''instances'', ''/tmp/clone1''] \<and>
   hd (trace (snd (create_vm_and_instance_disk_data (in_memory None) [''data''] specs specs
          ''primary'' ''/tmp/clone1'' disk_image
          (primary_disk [(''meta-data'', ''instance-id: primary'')]))))
     = Copy [''data'', ''qemu'', ''vault'', ''instances'', ''primary''] [''/tmp/clone1'']"
  by (simp add: eval_defs)

subsection \<open>An archive without network-config\<close>

text \<open>
  Claim C7. Let the archive read from the copy have no \<^verbatim>\<open>network-config\<close> entry. Then
  the network rewrite is skipped, whatever \<open>make_cloud_init_network_config\<close> would do:
  when the other steps succeed the clone returns the handle, and the archive written
  back is the one the meta-data rewrite produced. It has the same entry names as the
  archive read, so no \<^verbatim>\<open>network-config\<close> entry, and every entry other than
  \<^verbatim>\<open>meta-data\<close> is as it was read.
\<close>

theorem clone_without_network_config:
  assumes copy: "fs_copy C (instance_data_directory C data_root sn)
                   (instance_data_directory C data_root dn) w = (Inr (), w1)"
    and read: "iso_read_from C
                 (cloud_init_config_iso_file_path (instance_data_directory C data_root dn)) w1
               = (Inr archive, w2)"
    and absent: "\<not> iso_contains archive ''network-config''"
    and meta: "rewrite_meta_data C dn archive = Inr archive1"
    and written: "iso_write_to C archive1
                  (cloud_init_config_iso_file_path (instance_data_directory C data_root dn)) w2
                = (Inr (), w3)"
    and construct: "construct_vm C
                      (dest_vm_desc dst dn img
                         (cloud_init_config_iso_file_path (instance_data_directory C data_root dn)))
                      (get_instance_directory C dn) w3 = (Inr vm0, w4)"
    and load: "load_snapshots_and_update_unique_identifiers C vm0 src dst sn w4 = (Inr vm, w5)"
  shows "create_vm_and_instance_disk_data C data_root src dst sn dn img w =
           (Inr vm,
            \<lparr>world = w5,
             trace = [Copy (instance_data_directory C data_root sn)
                        (instance_data_directory C data_root dn),
                      ReadFrom (cloud_init_config_iso_file_path (instance_data_directory C data_root dn)),
                      WriteTo archive1
                        (cloud_init_config_iso_file_path (instance_data_directory C data_root dn)),
                      Construct dn (get_instance_directory C dn), LoadSnapshots sn, Dismiss],
             guard_active = False\<rparr>) \<and>
         map fst archive1 = map fst archive \<and>
         \<not> iso_contains archive1 ''network-config'' \<and>
         (\<forall>name. name \<noteq> ''meta-data'' \<longrightarrow> map_of archive1 name = map_of archive name)"
proof -
  from rewrite_meta_data_result[OF meta] obtain old node
    where old: "map_of archive ''meta-data'' = Some old"
      and archive1: "archive1 = AList.update ''meta-data'' (emit_cloud_config C node) archive"
    by blast
  from old have "''meta-data'' \<in> set (map fst archive)"
    by (metis map_of_eq_None_iff option.distinct(1) set_map)
  then have names: "map fst archive1 = map fst archive"
    by (simp add: archive1 update_keys)
  have others: "map_of archive1 name = map_of archive name" if "name \<noteq> ''meta-data''" for name
    using that by (simp add: archive1 update_conv')
  have lacks: "\<not> iso_contains archive1 ''network-config''"
    using absent others[of "''network-config''"] by (simp add: iso_contains_def)
  then have skipped: "rewrite_network_config C dst archive1 = Inr archive1"
    by (simp add: rewrite_network_config_def)
  have "create_vm_and_instance_disk_data C data_root src dst sn dn img w =
           (Inr vm,
            \<lparr>world = w5,
             trace = [Copy (instance_data_directory C data_root sn)
                        (instance_data_directory C data_root dn),
                      ReadFrom (cloud_init_config_iso_file_path (instance_data_directory C data_root dn)),
                      WriteTo archive1
                        (cloud_init_config_iso_file_path (instance_data_directory C data_root dn)),
                      Construct dn (get_instance_directory C dn), LoadSnapshots sn, Dismiss],
             guard_active = False\<rparr>)"
    by (simp add: create_vm_and_instance_disk_data_def Let_def run_defs vm_name_dest_vm_desc
          copy read meta skipped written construct load)
  with names lacks others show ?thesis
    by simp
qed

theorem clone_without_network_config_witness:
  "\<not> iso_contains [(''meta-data'', ''instance-id: primary'')] ''network-config'' \<and>
   create_vm_and_instance_disk_data
     ((in_memory None :: text_collaborators)
        \<lparr>make_cloud_init_network_config := (\<lambda>mac extra content. Inl (yaml_error ''network-config''))\<rparr>)
     [''data''] specs specs ''primary'' ''clone1'' disk_image
     (primary_disk [(''meta-data'', ''instance-id: primary'')])
   = (Inr ''clone1'',
      \<lparr>world = \<lparr>directories = [clone1_dir, primary_dir],
                 archives = [(clone1_dir @ [''cloud-init-config.iso''],
                                [(''meta-data'', ''instance-id: primary'')]),
                             (primary_dir @ [''cloud-init-config.iso''],
                                [(''meta-data'', ''instance-id: primary'')])]\<rparr>,
       trace = [Copy primary_dir clone1_dir,
                ReadFrom (clone1_dir @ [''cloud-init-config.iso'']),
                WriteTo [(''meta-data'', ''instance-id: primary'')] (clone1_dir @ [''cloud-init-config.iso'']),
                Construct ''clone1'' clone1_dir, LoadSnapshots ''primary'', Dismiss],
       guard_active = False\<rparr>)"
proof -
  let ?C = "(in_memory None :: text_collaborators)
              \<lparr>make_cloud_init_network_config := (\<lambda>mac extra content. Inl (yaml_error ''network-config''))\<rparr>"
  let ?archive = "[(''meta-data'', ''instance-id: primary'')]"
  let ?w1 = "\<lparr>directories = [clone1_dir, primary_dir],
              archives = [(clone1_dir @ [''cloud-init-config.iso''], ?archive),
                          (primary_dir @ [''cloud-init-config.iso''], ?archive)]\<rparr>"
  have absent: "\<not> iso_contains ?archive ''network-config''"
    by (simp add: iso_contains_def)
  have copy: "fs_copy ?C (instance_data_directory ?C [''data''] ''primary'')
                (instance_data_directory ?C [''data''] ''clone1'') (primary_disk ?archive)
              = (Inr (), ?w1)"
    and read: "iso_read_from ?C
                 (cloud_init_config_iso_file_path (instance_data_directory ?C [''data''] ''clone1'')) ?w1
               = (Inr ?archive, ?w1)"
    and meta: "rewrite_meta_data ?C ''clone1'' ?archive = Inr ?archive"
    and written: "iso_write_to ?C ?archive
                    (cloud_init_config_iso_file_path (instance_data_directory ?C [''data''] ''clone1'')) ?w1
                  = (Inr (), ?w1)"
    and construct: "construct_vm ?C
                      (dest_vm_desc specs ''clone1'' disk_image
                         (cloud_init_config_iso_file_path (instance_data_directory ?C [''data''] ''clone1'')))
                      (get_instance_directory ?C ''clone1'') ?w1 = (Inr ''clone1'', ?w1)"
    and load: "load_snapshots_and_update_unique_identifiers ?C ''clone1'' specs specs ''primary'' ?w1
               = (Inr ''clone1'', ?w1)"
    by (simp_all add: eval_defs)
  have dirs: "instance_data_directory ?C [''data''] ''primary'' = primary_dir"
    "instance_data_directory ?C [''data''] ''clone1'' = clone1_dir"
    "get_instance_directory (in_memory None :: text_collaborators) ''clone1'' = clone1_dir"
    "cloud_init_config_iso_file_path clone1_dir = clone1_dir @ [''cloud-init-config.iso'']"
    by (simp_all add: eval_defs)
  from clone_without_network_config[OF copy read absent meta written construct load] absent
  show ?thesis
    by (simp add: dirs)
qed

subsection \<open>The identity rewrite\<close>

text \<open>
  Claim C2. Let \<open>make_cloud_init_meta_config\<close> be as the spec describes it, let the
  emitted form of a document parse back to the document, and let the disk keep an
  archive that was written: reading a path after a successful write to it gives the
  archive written, and neither the construction of the handle nor the snapshot load
  changes what a read gives. Then after a successful clone to the name \<open>dn\<close> the
  archive on the disk at the destination has a meta-data entry that parses to a
  document computed from the document read from the copy and \<open>dn\<close>: its identity
  field is \<open>dn\<close> and every other field is as in the document read.
\<close>

theorem clone_rewrites_identity:
  fixes C :: "('w, 'c, document, 'vm, 'm) collaborators" and parse :: "'c \<Rightarrow> document option"
  assumes model: "make_cloud_init_meta_config C = make_cloud_init_meta_config_model parse identity_key"
    and emitted: "\<forall>doc. parse (emit_cloud_config C doc) = Some doc"
    and stored: "\<forall>a p w. fst (iso_write_to C a p w) = Inr () \<longrightarrow>
                   fst (iso_read_from C p (snd (iso_write_to C a p w))) = Inr a"
    and constructed: "\<forall>desc dir p w. fst (iso_read_from C p (snd (construct_vm C desc dir w)))
                        = fst (iso_read_from C p w)"
    and loaded: "\<forall>vm0 s1 s2 name p w.
                   fst (iso_read_from C p
                          (snd (load_snapshots_and_update_unique_identifiers C vm0 s1 s2 name w)))
                   = fst (iso_read_from C p w)"
    and ok: "create_vm_and_instance_disk_data C data_root src dst sn dn img w = (Inr vm, st)"
  shows "\<exists>w1 w2 archive content doc archive' content' doc'.
           fs_copy C (instance_data_directory C data_root sn)
             (instance_data_directory C data_root dn) w = (Inr (), w1) \<and>
           iso_read_from C
             (cloud_init_config_iso_file_path (instance_data_directory C data_root dn)) w1
             = (Inr archive, w2) \<and>
           map_of archive ''meta-data'' = Some content \<and> parse content = Some doc \<and>
           fst (iso_read_from C
                  (cloud_init_config_iso_file_path (instance_data_directory C data_root dn)) (world st))
             = Inr archive' \<and>
           map_of archive' ''meta-data'' = Some content' \<and> parse content' = Some doc' \<and>
           doc' = AList.update identity_key dn doc \<and>
           map_of doc' identity_key = Some dn \<and>
           (\<forall>X. X \<noteq> identity_key \<longrightarrow> map_of doc' X = map_of doc X)"
  using ok
proof (cases rule: clone_cases)
  case (rolled_back e st1)
  then show ?thesis by simp
next
  case (committed vm')
  let ?iso = "cloud_init_config_iso_file_path (instance_data_directory C data_root dn)"
  from clone_steps_success[OF committed(3)] obtain w1 w2 w3 w4 archive archive1 archive2 vm0
    where copy: "fs_copy C (instance_data_directory C data_root sn)
                   (instance_data_directory C data_root dn) w = (Inr (), w1)"
      and read: "iso_read_from C ?iso w1 = (Inr archive, w2)"
      and meta: "rewrite_meta_data C dn archive = Inr archive1"
      and net: "rewrite_network_config C dst archive1 = Inr archive2"
      and written: "iso_write_to C archive2 ?iso w2 = (Inr (), w3)"
      and construct: "construct_vm C (dest_vm_desc dst dn img ?iso) (get_instance_directory C dn) w3
                      = (Inr vm0, w4)"
      and load: "load_snapshots_and_update_unique_identifiers C vm0 src dst sn w4 = (Inr vm', world st)"
    by auto
  from stored[rule_format, of archive2 ?iso w2] have "fst (iso_read_from C ?iso w3) = Inr archive2"
    by (simp add: written)
  with constructed[rule_format, of ?iso "dest_vm_desc dst dn img ?iso" "get_instance_directory C dn" w3]
  have "fst (iso_read_from C ?iso w4) = Inr archive2"
    by (simp add: construct)
  with loaded[rule_format, of ?iso vm0 src dst sn w4]
  have on_disk: "fst (iso_read_from C ?iso (world st)) = Inr archive2"
    by (simp add: load)
  from rewrite_meta_data_result[OF meta] obtain content node
    where content: "map_of archive ''meta-data'' = Some content"
      and node: "make_cloud_init_meta_config C dn content = Inr node"
      and archive1: "archive1 = AList.update ''meta-data'' (emit_cloud_config C node) archive"
    by blast
  from node model obtain doc
    where doc: "parse content = Some doc" and new: "node = AList.update identity_key dn doc"
    by (auto simp: make_cloud_init_meta_config_model_def split: option.splits)
  have "map_of archive2 ''meta-data'' = map_of archive1 ''meta-data''"
    using rewrite_network_config_result[OF net] by simp
  then have entry: "map_of archive2 ''meta-data'' = Some (emit_cloud_config C node)"
    by (simp add: archive1 update_conv')
  have parsed: "parse (emit_cloud_config C node) = Some node"
    using emitted by simp
  have fields: "map_of node identity_key = Some dn"
    "\<forall>X. X \<noteq> identity_key \<longrightarrow> map_of node X = map_of doc X"
    by (simp_all add: new update_conv')
  show ?thesis
    apply (rule exI[of _ w1])
    apply (rule exI[of _ w2])
    apply (rule exI[of _ archive])
    apply (rule exI[of _ content])
    apply (rule exI[of _ doc])
    apply (rule exI[of _ archive2])
    apply (rule exI[of _ "emit_cloud_config C node"])
    apply (rule exI[of _ node])
    apply (simp add: copy read content doc on_disk entry parsed fields)
    apply (simp add: new)
    done
qed

theorem clone_rewrites_identity_witness:
  "fst (create_vm_and_instance_disk_data
     ((in_memory None :: document_collaborators)
        \<lparr>make_cloud_init_meta_config := make_cloud_init_meta_config_model Some ''instance-id''\<rparr>)
     [''data''] specs specs ''primary'' ''clone1'' disk_image
     (primary_disk [(''meta-data'', [(''instance-id'', ''primary''), (''flavour'', ''custom'')])]))
   = Inr ''clone1'' \<and>
   fst (iso_read_from
     ((in_memory None :: document_collaborators)
        \<lparr>make_cloud_init_meta_config := make_cloud_init_meta_config_model Some ''instance-id''\<rparr>)
     (clone1_dir @ [''cloud-init-config.iso''])
     (world (snd (create_vm_and_instance_disk_data
       ((in_memory None :: document_collaborators)
          \<lparr>make_cloud_init_meta_config := make_cloud_init_meta_config_model Some ''instance-id''\<rparr>)
       [''data''] specs specs ''primary'' ''clone1'' disk_image
       (primary_disk [(''meta-data'', [(''instance-id'', ''primary''), (''flavour'', ''custom'')])])))))
   = Inr [(''meta-data'', [(''instance-id'', ''clone1''), (''flavour'', ''custom'')])]"
proof -
  let ?C = "(in_memory None :: document_collaborators)
              \<lparr>make_cloud_init_meta_config := make_cloud_init_meta_config_model Some ''instance-id''\<rparr>"
  let ?run = "create_vm_and_instance_disk_data ?C [''data''] specs specs ''primary'' ''clone1'' disk_image
     (primary_disk [(''meta-data'', [(''instance-id'', ''primary''), (''flavour'', ''custom'')])])"
  let ?iso = "cloud_init_config_iso_file_path (instance_data_directory ?C [''data''] ''clone1'')"
  have model: "make_cloud_init_meta_config ?C = make_cloud_init_meta_config_model Some ''instance-id''"
    by simp
  have emitted: "\<forall>doc. Some (emit_cloud_config ?C doc) = Some doc"
    by (simp add: in_memory_def)
  have stored: "\<forall>a p w. fst (iso_write_to ?C a p w) = Inr () \<longrightarrow>
                  fst (iso_read_from ?C p (snd (iso_write_to ?C a p w))) = Inr a"
    by (simp add: in_memory_def update_conv')
  have constructed: "\<forall>desc dir p w. fst (iso_read_from ?C p (snd (construct_vm ?C desc dir w)))
                       = fst (iso_read_from ?C p w)"
    by (simp add: in_memory_def)
  have loaded: "\<forall>vm0 s1 s2 name p w.
                  fst (iso_read_from ?C p
                         (snd (load_snapshots_and_update_unique_identifiers ?C vm0 s1 s2 name w)))
                  = fst (iso_read_from ?C p w)"
    by (simp add: in_memory_def)
  have outcome: "fst ?run = Inr ''clone1''"
    by (simp add: eval_defs make_cloud_init_meta_config_model_def)
  then have ok: "?run = (Inr ''clone1'', snd ?run)"
    by (simp add: prod_eq_iff)
  have iso: "?iso = clone1_dir @ [''cloud-init-config.iso'']"
    by (simp add: eval_defs)
  have on_disk: "fst (iso_read_from ?C ?iso (world (snd ?run)))
                 = Inr [(''meta-data'', [(''instance-id'', ''clone1''), (''flavour'', ''custom'')])]"
    by (simp add: eval_defs make_cloud_init_meta_config_model_def)
  from clone_rewrites_identity[OF model emitted stored constructed loaded ok]
  have "\<exists>archive' content'.
          fst (iso_read_from ?C ?iso (world (snd ?run))) = Inr archive' \<and>
          map_of archive' ''meta-data'' = Some content' \<and>
          map_of content' ''instance-id'' = Some ''clone1''"
    by (elim exE conjE) (intro exI conjI, assumption, assumption, simp)
  with on_disk outcome show ?thesis
    by (simp add: iso)
qed

subsection \<open>Image preparation\<close>

text \<open>
  Claim C10. Whatever the two image routines do, an image that \<open>prepare_source_image\<close>
  returns is its argument with the image path replaced by the path the conversion
  returned: the metadata is the argument's.
\<close>

theorem prepare_source_image_keeps_metadata:
  assumes "prepare_source_image convert amend source_image s = (Inr img, s')"
  shows "metadata img = metadata source_image \<and>
         (\<exists>converted s1. convert (image_path source_image) s = (Inr converted, s1) \<and>
            img = source_image\<lparr>image_path := converted\<rparr>)"
  using assms
  by (auto simp: prepare_source_image_def bind_def lift_def split: prod.splits sum.splits)

theorem prepare_source_image_keeps_metadata_witness:
  "prepare_source_image (\<lambda>p s. (Inr (p @ ''.qcow2''), s)) (\<lambda>p s. (Inr (), s))
     \<lparr>image_path = ''jammy.img'', metadata = ''22.04 LTS''\<rparr> ()
   = (Inr \<lparr>image_path = ''jammy.img.qcow2'', metadata = ''22.04 LTS''\<rparr>, ())"
proof -
  obtain r u where run: "prepare_source_image (\<lambda>p s. (Inr (p @ ''.qcow2''), s)) (\<lambda>p s. (Inr (), s))
     \<lparr>image_path = ''jammy.img'', metadata = ''22.04 LTS''\<rparr> () = (r, u :: unit)"
    by (metis surj_pair)
  then obtain img where r: "r = Inr img"
    by (cases r) (simp_all add: prepare_source_image_def bind_def lift_def)
  from prepare_source_image_keeps_metadata[OF run[unfolded r]]
  have "img = \<lparr>image_path = ''jammy.img.qcow2'', metadata = ''22.04 LTS''\<rparr>"
    by auto
  with run r show ?thesis
    by simp
qed

text \<open>
  Claim C4. With the two image routines as the spec describes them,
  \<open>prepare_source_image\<close> applied to its own result, on the store it left, returns the
  same image and leaves the store as it is; the image at the resulting path is in the
  required format at revision 3.
\<close>

theorem prepare_source_image_idempotent:
  assumes "prepare_source_image (convert_to_qcow_if_necessary converted_path) amend_to_qcow2_v3
             img store = (Inr img1, store1)"
  shows "prepare_source_image (convert_to_qcow_if_necessary converted_path) amend_to_qcow2_v3
           img1 store1 = (Inr img1, store1) \<and>
         (\<exists>info. store1 (image_path img1) = Some info \<and> format info = qcow2 \<and> revision info = 3)"
  using assms
  by (auto simp: prepare_source_image_def bind_def lift_def convert_to_qcow_if_necessary_def
        amend_to_qcow2_v3_def fun_upd_idem
      split: prod.splits sum.splits option.splits if_splits)

theorem prepare_source_image_idempotent_witness:
  "fst (prepare_source_image (convert_to_qcow_if_necessary (\<lambda>p. p @ ''.qcow2'')) amend_to_qcow2_v3
          \<lparr>image_path = ''jammy.img'', metadata = ()\<rparr>
          [''jammy.img'' \<mapsto> \<lparr>format = other_format ''raw'', revision = 2\<rparr>])
   = Inr \<lparr>image_path = ''jammy.img.qcow2'', metadata = ()\<rparr> \<and>
   prepare_source_image (convert_to_qcow_if_necessary (\<lambda>p. p @ ''.qcow2'')) amend_to_qcow2_v3
     \<lparr>image_path = ''jammy.img.qcow2'', metadata = ()\<rparr>
     (snd (prepare_source_image (convert_to_qcow_if_necessary (\<lambda>p. p @ ''.qcow2'')) amend_to_qcow2_v3
             \<lparr>image_path = ''jammy.img'', metadata = ()\<rparr>
             [''jammy.img'' \<mapsto> \<lparr>format = other_format ''raw'', revision = 2\<rparr>]))
   = (Inr \<lparr>image_path = ''jammy.img.qcow2'', metadata = ()\<rparr>,
      snd (prepare_source_image (convert_to_qcow_if_necessary (\<lambda>p. p @ ''.qcow2'')) amend_to_qcow2_v3
             \<lparr>image_path = ''jammy.img'', metadata = ()\<rparr>
             [''jammy.img'' \<mapsto> \<lparr>format = other_format ''raw'', revision = 2\<rparr>]))"
proof -
  let ?once = "prepare_source_image (convert_to_qcow_if_necessary (\<lambda>p. p @ ''.qcow2'')) amend_to_qcow2_v3
                 \<lparr>image_path = ''jammy.img'', metadata = ()\<rparr>
                 [''jammy.img'' \<mapsto> \<lparr>format = other_format ''raw'', revision = 2\<rparr>]"
  have first: "fst ?once = Inr \<lparr>image_path = ''jammy.img.qcow2'', metadata = ()\<rparr>"
    by (simp add: prepare_source_image_def bind_def lift_def convert_to_qcow_if_necessary_def
          amend_to_qcow2_v3_def)
  then have run: "?once = (Inr \<lparr>image_path = ''jammy.img.qcow2'', metadata = ()\<rparr>, snd ?once)"
    by (simp add: prod_eq_iff)
  from prepare_source_image_idempotent[OF run] first show ?thesis
    by simp
qed

subsection \<open>The version probe\<close>



end
